theory Spec2Isabelle
  imports Main "HOL-Library.Sublist"
begin

section \<open>The content-delivery configuration (back-end-construct.ts)\<close>

subsection \<open>Durations and allow-list behaviours\<close>

text \<open>
  A CDK \<open>Duration\<close> is kept as a number of seconds; the three constructors used by the
  construct are \<open>Duration.seconds\<close>, \<open>Duration.minutes\<close> and \<open>Duration.days\<close>.
\<close>

type_synonym Duration = nat

definition Duration_seconds :: "nat \<Rightarrow> Duration" where
  "Duration_seconds n = n"

definition Duration_minutes :: "nat \<Rightarrow> Duration" where
  "Duration_minutes n = 60 * n"

definition Duration_days :: "nat \<Rightarrow> Duration" where
  "Duration_days n = 86400 * n"

text \<open>
  \<open>CacheHeaderBehavior\<close> and \<open>CacheQueryStringBehavior\<close>: the construct only ever calls
  \<open>allowList\<close>; the other constructors are the remaining choices the CDK offers.
\<close>

datatype Behavior = none | allowList "string list" | all

text \<open>The module-level constant \<open>queryStringParameters\<close> (lines 43-49).\<close>

definition queryStringParameters :: "string list" where
  "queryStringParameters = [''signature'', ''edits'', ''headers'', ''effort'', ''outputFormat'']"

subsection \<open>The properties the construct reads\<close>

text \<open>
  \<open>BackEndProps\<close>, restricted to the fields that reach the distribution, together with
  the two context values read through \<open>tryGetContext\<close> at the end of the constructor.
\<close>

record BackEndProps =
  uuid :: string
  cloudFrontPriceClass :: string
  customDomain :: "string option"
  certificate :: "string option"
  logsBucket :: string
  originShieldEnabled :: "string option"
  originShieldRegion :: "string option"
  AWS_REGION :: string

subsection \<open>Cache policy and origin request policy (lines 168-182)\<close>

record CachePolicyProps =
  cachePolicyName :: string
  defaultTtl :: Duration
  minTtl :: Duration
  maxTtl :: Duration
  enableAcceptEncodingGzip :: bool
  cp_headerBehavior :: Behavior
  cp_queryStringBehavior :: Behavior

record OriginRequestPolicyProps =
  originRequestPolicyName :: string
  orp_headerBehavior :: Behavior
  orp_queryStringBehavior :: Behavior

definition cachePolicy :: "BackEndProps \<Rightarrow> CachePolicyProps" where
  "cachePolicy props =
     \<lparr> cachePolicyName = ''ServerlessImageHandler-'' @ uuid props,
       defaultTtl = Duration_days 1,
       minTtl = Duration_seconds 1,
       maxTtl = Duration_days 365,
       enableAcceptEncodingGzip = False,
       cp_headerBehavior = allowList [''origin'', ''accept''],
       cp_queryStringBehavior = allowList queryStringParameters \<rparr>"

definition originRequestPolicy :: "BackEndProps \<Rightarrow> OriginRequestPolicyProps" where
  "originRequestPolicy props =
     \<lparr> originRequestPolicyName = ''ServerlessImageHandler-'' @ uuid props,
       orp_headerBehavior = allowList [''origin'', ''accept''],
       orp_queryStringBehavior = allowList queryStringParameters \<rparr>"

subsection \<open>The viewer-request function (lines 199-215)\<close>

text \<open>
  The inline function receives the viewer request. A header of a CloudFront Functions
  event is an object with a \<open>value\<close> and, when the header was repeated, a
  \<open>multiValue\<close> list; the headers object maps lower-case names to such objects.
  Every property the function tests may be absent, hence the options.
\<close>

record HeaderObject =
  hvalue :: "string option"
  multiValue :: "string list option"

record ViewerRequest =
  request_method :: string
  uri :: string
  querystring :: "(string \<times> string) list"
  headers :: "(string \<rightharpoonup> HeaderObject) option"

text \<open>
  \<open>String.prototype.includes\<close>: the needle occurs at some position of the string.
\<close>

fun includes_str :: "string \<Rightarrow> string \<Rightarrow> bool" where
  "includes_str [] needle = (needle = [])"
| "includes_str (c # cs) needle = (prefix needle (c # cs) \<or> includes_str cs needle)"

text \<open>
  The guard \<open>headers && headers.accept && headers.accept.value\<close> is a chain of
  JavaScript truthiness tests: an object is truthy, \<open>undefined\<close> is not, and a string
  is truthy exactly when it is not empty. Inside the guard the function replaces the
  whole \<open>accept\<close> object by \<open>{ value: resultingHeader }\<close>; in every case it returns the
  request.
\<close>

definition resultingHeader :: "string \<Rightarrow> string" where
  "resultingHeader acceptheadervalue =
     (if includes_str acceptheadervalue ''image/webp'' then ''image/webp'' else ''image/jpg'')"

definition viewer_request_handler :: "ViewerRequest \<Rightarrow> ViewerRequest" where
  "viewer_request_handler request =
     (case headers request of
        None \<Rightarrow> request
      | Some hs \<Rightarrow>
          (case hs ''accept'' of
             None \<Rightarrow> request
           | Some accept \<Rightarrow>
               (case hvalue accept of
                  None \<Rightarrow> request
                | Some acceptheadervalue \<Rightarrow>
                    if acceptheadervalue = [] then request
                    else request\<lparr>headers :=
                           Some (hs(''accept'' \<mapsto>
                             \<lparr> hvalue = Some (resultingHeader acceptheadervalue),
                               multiValue = None \<rparr>))\<rparr>)))"

subsection \<open>The distribution (lines 217-245 and the overrides of lines 284-319)\<close>

datatype AllowedMethods = ALLOW_GET_HEAD | ALLOW_GET_HEAD_OPTIONS | ALLOW_ALL

datatype ViewerProtocolPolicy = HTTPS_ONLY | REDIRECT_TO_HTTPS | ALLOW_ALL_PROTOCOLS

datatype FunctionEventType = VIEWER_REQUEST | VIEWER_RESPONSE

text \<open>The HTTP methods each \<open>AllowedMethods\<close> constant of the CDK stands for.\<close>

fun methods :: "AllowedMethods \<Rightarrow> string list" where
  "methods ALLOW_GET_HEAD = [''GET'', ''HEAD'']"
| "methods ALLOW_GET_HEAD_OPTIONS = [''GET'', ''HEAD'', ''OPTIONS'']"
| "methods ALLOW_ALL =
     [''GET'', ''HEAD'', ''OPTIONS'', ''PUT'', ''PATCH'', ''POST'', ''DELETE'']"

record ErrorResponse =
  httpStatus :: nat
  ttl :: Duration

datatype OriginSslPolicy = SSL_V3 | TLS_V1 | TLS_V1_1 | TLS_V1_2

record HttpOrigin =
  originPath :: string
  originSslProtocols :: "OriginSslPolicy list"

record BehaviorOptions =
  origin :: HttpOrigin
  allowedMethods :: AllowedMethods
  viewerProtocolPolicy :: ViewerProtocolPolicy
  bo_originRequestPolicy :: OriginRequestPolicyProps
  bo_cachePolicy :: CachePolicyProps
  functionAssociations :: "(string \<times> FunctionEventType) list"

record DistributionProps =
  comment :: string
  defaultBehavior :: BehaviorOptions
  domainNames :: "string list option"
  dp_certificate :: "string option"
  priceClass :: string
  enableLogging :: bool
  logBucket :: string
  logFilePrefix :: string
  errorResponses :: "ErrorResponse list"

definition cloudFrontDistributionProps :: "BackEndProps \<Rightarrow> DistributionProps" where
  "cloudFrontDistributionProps props =
     \<lparr> comment = ''Image Handler Distribution for Serverless Image Handler'',
       defaultBehavior =
         \<lparr> origin = \<lparr> originPath = ''/image'', originSslProtocols = [TLS_V1_1, TLS_V1_2] \<rparr>,
           allowedMethods = ALLOW_GET_HEAD,
           viewerProtocolPolicy = HTTPS_ONLY,
           bo_originRequestPolicy = originRequestPolicy props,
           bo_cachePolicy = cachePolicy props,
           functionAssociations = [(''NormalizeAcceptHeaderFunction'', VIEWER_REQUEST)] \<rparr>,
       domainNames = (case customDomain props of
                        None \<Rightarrow> None
                      | Some d \<Rightarrow> if d = [] then None else Some [d]),
       dp_certificate = certificate props,
       priceClass = cloudFrontPriceClass props,
       enableLogging = True,
       logBucket = logsBucket props,
       logFilePrefix = ''api-cloudfront/'',
       errorResponses =
         [ \<lparr> httpStatus = 500, ttl = Duration_minutes 10 \<rparr>,
           \<lparr> httpStatus = 501, ttl = Duration_minutes 10 \<rparr>,
           \<lparr> httpStatus = 502, ttl = Duration_minutes 10 \<rparr>,
           \<lparr> httpStatus = 503, ttl = Duration_minutes 10 \<rparr>,
           \<lparr> httpStatus = 504, ttl = Duration_minutes 10 \<rparr> ] \<rparr>"

text \<open>
  After the distribution is created the constructor adds property overrides, each
  naming the path of the template it replaces: two when a custom domain is given, one
  when the origin shield is enabled (the context value equals \<open>Yes\<close>). With a custom
  domain and no certificate the constructor fails at line 288, before any override is
  added; the list below is then larger than what the code adds.
\<close>

definition propertyOverrides :: "BackEndProps \<Rightarrow> string list" where
  "propertyOverrides props =
     (case customDomain props of
        None \<Rightarrow> []
      | Some d \<Rightarrow> if d = [] then []
                  else [''DistributionConfig.ViewerCertificate'', ''DistributionConfig.Aliases''])
     @ (if originShieldEnabled props = Some ''Yes''
        then [''DistributionConfig.Origins.0.OriginShield''] else [])"

text \<open>The time for which the distribution caches an error response of a given status.\<close>

fun errorTtl :: "ErrorResponse list \<Rightarrow> nat \<Rightarrow> Duration option" where
  "errorTtl [] s = None"
| "errorTtl (r # rs) s = (if httpStatus r = s then Some (ttl r) else errorTtl rs s)"

subsection \<open>What the content-delivery network does with the two policies\<close>

text \<open>
  The cache key and the request sent on to the origin are computed by the
  content-delivery network, not by code of the repository. Its rule for a policy is
  written out here so that the effect of the two allow lists can be stated: a behaviour
  selects no name, the listed names, or every name; the cache key holds the path with
  the headers and query parameters the cache policy selects; the request forwarded to
  the origin keeps what the cache policy or the origin request policy selects. The
  viewer-request function runs before either is computed.
\<close>

fun selects :: "Behavior \<Rightarrow> string \<Rightarrow> bool" where
  "selects none k = False"
| "selects (allowList names) k = (k \<in> set names)"
| "selects all k = True"

definition requestHeaders :: "ViewerRequest \<Rightarrow> (string \<rightharpoonup> HeaderObject)" where
  "requestHeaders request = (case headers request of None \<Rightarrow> Map.empty | Some hs \<Rightarrow> hs)"

definition selected :: "(string \<Rightarrow> bool) \<Rightarrow> (string \<rightharpoonup> 'a) \<Rightarrow> (string \<rightharpoonup> 'a)" where
  "selected keep m = (\<lambda>k. if keep k then m k else None)"

definition cacheKey ::
  "CachePolicyProps \<Rightarrow> ViewerRequest \<Rightarrow>
     string \<times> (string \<rightharpoonup> HeaderObject) \<times> (string \<times> string) list" where
  "cacheKey cp request =
     (uri request,
      selected (selects (cp_headerBehavior cp)) (requestHeaders request),
      filter (\<lambda>kv. selects (cp_queryStringBehavior cp) (fst kv)) (querystring request))"

definition originRequest ::
  "CachePolicyProps \<Rightarrow> OriginRequestPolicyProps \<Rightarrow> ViewerRequest \<Rightarrow> ViewerRequest" where
  "originRequest cp orp request =
     request\<lparr>
       headers := Some (selected
         (\<lambda>k. selects (cp_headerBehavior cp) k \<or> selects (orp_headerBehavior orp) k)
         (requestHeaders request)),
       querystring := filter
         (\<lambda>kv. selects (cp_queryStringBehavior cp) (fst kv)
              \<or> selects (orp_queryStringBehavior orp) (fst kv))
         (querystring request)\<rparr>"

definition edgeCacheKey ::
  "BackEndProps \<Rightarrow> ViewerRequest \<Rightarrow>
     string \<times> (string \<rightharpoonup> HeaderObject) \<times> (string \<times> string) list" where
  "edgeCacheKey props request = cacheKey (cachePolicy props) (viewer_request_handler request)"

definition edgeOriginRequest :: "BackEndProps \<Rightarrow> ViewerRequest \<Rightarrow> ViewerRequest" where
  "edgeOriginRequest props request =
     originRequest (cachePolicy props) (originRequestPolicy props)
       (viewer_request_handler request)"

section \<open>The request handler of the compute function\<close>

text \<open>
  The construct deploys \<open>image-handler/index.ts\<close> as the compute function. Of the
  image handler the sources hold the interface declarations of its \<open>lib\<close> module and
  the tests of \<open>handler\<close>; the handler itself is modelled below from the specification
  and from what those tests assert.
\<close>

subsection \<open>Declared interfaces (image-handler/lib)\<close>

type_synonym Buffer = string

datatype HeaderValue = HString string | HBool bool

type_synonym Headers = "string \<rightharpoonup> HeaderValue"

record QueryStringParameters =
  signature :: "string option"
  qs_edits :: "string option"
  qs_headers :: "string option"
  qs_outputFormat :: "string option"
  qs_effort :: "nat option"

record RequestContext =
  elb :: "unit option"

record ImageHandlerEvent =
  path :: "string option"
  ev_queryStringParameters :: "QueryStringParameters option"
  requestContext :: "RequestContext option"
  ev_headers :: "Headers option"

record ImageHandlerExecutionResult =
  statusCode :: nat
  isBase64Encoded :: bool
  headers_res :: Headers
  body :: string

text \<open>
  Of \<open>ImageRequestInfo\<close> the model keeps the location of the image, the edits, the
  bytes fetched and the four values copied into the response headers. The edits are
  kept as the text of the \<open>edits\<close> query parameter: what they mean is the business of
  the image library.
\<close>

type_synonym ImageEdits = string

record ImageRequestInfo =
  bucket :: string
  key :: string
  edits :: "ImageEdits option"
  originalImage :: Buffer
  contentType :: "string option"
  expires :: "string option"
  lastModified :: "string option"
  cacheControl :: "string option"

subsection \<open>Status codes and errors\<close>

text \<open>
  Modelled from the spec: the enumeration \<open>StatusCodes\<close> of \<open>lib/enums\<close>, which is not
  among the sources; the four members the specification names, with their HTTP values.
\<close>

definition StatusCodes_OK :: nat where
  "StatusCodes_OK = 200"

definition StatusCodes_BAD_REQUEST :: nat where
  "StatusCodes_BAD_REQUEST = 400"

definition StatusCodes_NOT_FOUND :: nat where
  "StatusCodes_NOT_FOUND = 404"

definition StatusCodes_INTERNAL_SERVER_ERROR :: nat where
  "StatusCodes_INTERNAL_SERVER_ERROR = 500"

text \<open>
  Modelled from the spec: the class \<open>ImageHandlerError\<close> of \<open>lib\<close>, which is not among
  the sources. The tests construct it from a status, a code and a message that may be
  \<open>null\<close>; any other thrown error carries a message and no status.
\<close>

datatype error = ImageHandlerError nat string "string option" | Error string

fun error_status :: "error \<Rightarrow> nat option" where
  "error_status (ImageHandlerError s c m) = Some s"
| "error_status (Error m) = None"

subsection \<open>Text encodings\<close>

text \<open>
  \<open>Buffer.toString("base64")\<close>: the standard alphabet, three bytes to four characters,
  padded with \<open>=\<close>.
\<close>

definition b64chars :: string where
  "b64chars = ''ABCDEFGHIJKLMNOPQRSTUVWXYZabcdefghijklmnopqrstuvwxyz0123456789+/''"

definition b64 :: "nat \<Rightarrow> char" where
  "b64 n = b64chars ! n"

fun base64 :: "Buffer \<Rightarrow> string" where
  "base64 [] = []"
| "base64 [a] =
     [b64 (of_char a div 4), b64 (of_char a mod 4 * 16), CHR ''='', CHR ''='']"
| "base64 [a, b] =
     [b64 (of_char a div 4), b64 (of_char a mod 4 * 16 + of_char b div 16),
      b64 (of_char b mod 16 * 4), CHR ''='']"
| "base64 (a # b # c # rest) =
     [b64 (of_char a div 4), b64 (of_char a mod 4 * 16 + of_char b div 16),
      b64 (of_char b mod 16 * 4 + of_char c div 64), b64 (of_char c mod 64)]
     @ base64 rest"

text \<open>
  \<open>JSON.stringify\<close> of a number and of a string: decimal digits; the string in double
  quotes, with the quote, the backslash and the control characters escaped.
\<close>

fun digits :: "nat \<Rightarrow> string" where
  "digits n =
     (if n < 10 then [''0123456789'' ! n]
      else digits (n div 10) @ [''0123456789'' ! (n mod 10)])"

definition hexdigit :: "nat \<Rightarrow> char" where
  "hexdigit n = ''0123456789abcdef'' ! n"

definition escape :: "char \<Rightarrow> string" where
  "escape c =
     (if c = CHR 0x22 then [CHR 0x5C, CHR 0x22]
      else if c = CHR 0x5C then [CHR 0x5C, CHR 0x5C]
      else if c = CHR 0x08 then [CHR 0x5C, CHR ''b'']
      else if c = CHR 0x0C then [CHR 0x5C, CHR ''f'']
      else if c = CHR 0x0A then [CHR 0x5C, CHR ''n'']
      else if c = CHR 0x0D then [CHR 0x5C, CHR ''r'']
      else if c = CHR 0x09 then [CHR 0x5C, CHR ''t'']
      else if (of_char c :: nat) < 32
        then [CHR 0x5C, CHR ''u'', CHR ''0'', CHR ''0'',
              hexdigit (of_char c div 16), hexdigit (of_char c mod 16)]
      else [c])"

definition quote :: "string \<Rightarrow> string" where
  "quote s = CHR 0x22 # concat (map escape s) @ [CHR 0x22]"

text \<open>
  \<open>JSON.stringify\<close> of an \<open>ImageHandlerError\<close>: the tests expect the properties in the
  order status, code, message.
\<close>

definition stringify_error :: "nat \<Rightarrow> string \<Rightarrow> string option \<Rightarrow> string" where
  "stringify_error s c m =
     ''{'' @ quote ''status'' @ '':'' @ digits s @ '','' @
     quote ''code'' @ '':'' @ quote c @ '','' @
     quote ''message'' @ '':'' @ (case m of None \<Rightarrow> ''null'' | Some t \<Rightarrow> quote t) @ ''}''"

text \<open>The object literals of the handler are written message, code, status.\<close>

definition stringify_literal :: "string \<Rightarrow> string \<Rightarrow> nat \<Rightarrow> string" where
  "stringify_literal m c s =
     ''{'' @ quote ''message'' @ '':'' @ quote m @ '','' @
     quote ''code'' @ '':'' @ quote c @ '','' @
     quote ''status'' @ '':'' @ digits s @ ''}''"

subsection \<open>Environment and object storage\<close>

text \<open>
  The environment variables the construct sets on the function (lines 123-138) and the
  handler tests assign; a variable may be unset.
\<close>

record Env =
  CORS_ENABLED :: "string option"
  CORS_ORIGIN :: "string option"
  SOURCE_BUCKETS :: "string option"
  ENABLE_DEFAULT_FALLBACK_IMAGE :: "string option"
  DEFAULT_FALLBACK_IMAGE_BUCKET :: "string option"
  DEFAULT_FALLBACK_IMAGE_KEY :: "string option"

text \<open>
  Object storage answers a \<open>getObject\<close> for a bucket and key with the stored object
  or rejects it. An object has the properties of a \<open>getObject\<close> answer the tests use; a
  rejection has the status, the code and the message (possibly \<open>null\<close>) the tests reject
  with.
\<close>

record S3Object =
  Body :: Buffer
  ContentType :: "string option"
  CacheControl :: "string option"
  Expires :: "string option"
  LastModified :: "string option"

record S3Rejection =
  rejection_status :: nat
  rejection_code :: string
  rejection_message :: "string option"

type_synonym S3 = "string \<times> string \<Rightarrow> S3Rejection + S3Object"

text \<open>
  Modelled from the spec: the parts of \<open>ImageRequest\<close> and of the image library the
  handler calls, none of which is among the sources. They are parameters of the model:
  how the bucket and key are read from the request, how the \<open>edits\<close> query parameter is
  parsed and validated, and what the image library makes of the bytes and the edits.
\<close>

record Collaborators =
  parseImageLocation :: "Env \<Rightarrow> ImageHandlerEvent \<Rightarrow> error + string \<times> string"
  parseImageEdits :: "ImageHandlerEvent \<Rightarrow> error + ImageEdits option"
  applyEdits :: "ImageEdits \<Rightarrow> Buffer \<Rightarrow> error + Buffer"

subsection \<open>Fetching and processing\<close>

text \<open>
  Modelled from the spec: \<open>ImageRequest.getOriginalImage\<close>, which is not among the
  sources. It fetches the object at the bucket and key. When storage rejects the call it
  throws an error of status 404 that keeps the code of the rejection and whose message
  names the key: the handler tests reject with status 404 (line 140) and with status
  500 (line 226) and expect 404 in the answer both times, and they expect this message
  for the code \<open>NoSuchKey\<close>.
\<close>

definition getOriginalImage :: "S3 \<Rightarrow> string \<Rightarrow> string \<Rightarrow> error + S3Object" where
  "getOriginalImage s3 b k =
     (case s3 (b, k) of
        Inl rejection \<Rightarrow> Inl (ImageHandlerError StatusCodes_NOT_FOUND (rejection_code rejection)
          (Some (''The image '' @ k @
             '' does not exist or the request may not be base64 encoded properly.'')))
      | Inr obj \<Rightarrow> Inr obj)"

text \<open>
  Modelled from the spec: \<open>ImageRequest.setup\<close>, which is not among the sources. It
  reads the location and the edits from the request, then fetches the source image and
  records its bytes, its content type and its caching properties; an object stored
  without a cache-control value gets \<open>max-age=31536000,public\<close>, as the tests expect.
\<close>

definition imageRequest_setup :: "Collaborators \<Rightarrow> Env \<Rightarrow> S3 \<Rightarrow> ImageHandlerEvent \<Rightarrow> error + ImageRequestInfo" where
  "imageRequest_setup lib env s3 event =
     (case parseImageLocation lib env event of
        Inl e \<Rightarrow> Inl e
      | Inr (b, k) \<Rightarrow>
          (case parseImageEdits lib event of
             Inl e \<Rightarrow> Inl e
           | Inr es \<Rightarrow>
               (case getOriginalImage s3 b k of
                  Inl e \<Rightarrow> Inl e
                | Inr obj \<Rightarrow>
                    Inr \<lparr> bucket = b, key = k, edits = es,
                          originalImage = Body obj,
                          contentType = ContentType obj,
                          expires = Expires obj,
                          lastModified = LastModified obj,
                          cacheControl = Some (case CacheControl obj of
                             None \<Rightarrow> ''max-age=31536000,public'' | Some c \<Rightarrow> c) \<rparr>)))"

text \<open>
  Modelled from the spec: \<open>ImageHandler.process\<close>, which is not among the sources. It
  hands the fetched bytes and the edits to the image library and returns the base64
  text of the transformed bytes; a request without edits returns the fetched bytes
  themselves, as the first handler test expects.
\<close>

definition process :: "Collaborators \<Rightarrow> ImageRequestInfo \<Rightarrow> error + string" where
  "process lib info =
     (case edits info of
        None \<Rightarrow> Inr (base64 (originalImage info))
      | Some es \<Rightarrow>
          (case applyEdits lib es (originalImage info) of
             Inl e \<Rightarrow> Inl e
           | Inr transformed \<Rightarrow> Inr (base64 transformed)))"

subsection \<open>Responses\<close>

text \<open>
  Modelled from the spec: \<open>getResponseHeaders\<close> of the handler module, which is not
  among the sources; the headers are those the handler tests expect. A request that came
  through a load balancer gets no \<open>Access-Control-Allow-Credentials\<close>; the origin header is
  added when CORS is enabled; an error response is JSON.
\<close>

definition getResponseHeaders :: "Env \<Rightarrow> bool \<Rightarrow> bool \<Rightarrow> Headers" where
  "getResponseHeaders env isError isAlb =
     (let h0 = [''Access-Control-Allow-Methods'' \<mapsto> HString ''GET'',
                ''Access-Control-Allow-Headers'' \<mapsto> HString ''Content-Type, Authorization''];
          h1 = (if isAlb then h0 else h0(''Access-Control-Allow-Credentials'' \<mapsto> HBool True));
          h2 = (if CORS_ENABLED env = Some ''Yes''
                then h1(''Access-Control-Allow-Origin'' := map_option HString (CORS_ORIGIN env))
                else h1)
      in if isError then h2(''Content-Type'' \<mapsto> HString ''application/json'') else h2)"

text \<open>
  Modelled from the spec: \<open>getErrorResponse\<close> of the handler module, which is not among
  the sources. An error that carries a status is answered with that status and its own
  JSON text; the overlay-dimension error of the image library is answered with status
  400 and code \<open>BadRequest\<close>; any other error with status 500 and code \<open>InternalError\<close>.
\<close>

definition getErrorResponse :: "error \<Rightarrow> nat \<times> string" where
  "getErrorResponse e =
     (case e of
        ImageHandlerError s c m \<Rightarrow> (s, stringify_error s c m)
      | Error m \<Rightarrow>
          if m = ''Image to overlay must have same dimensions or smaller''
          then (StatusCodes_BAD_REQUEST,
                stringify_literal ''Image to overlay must have same dimensions or smaller''
                  ''BadRequest'' StatusCodes_BAD_REQUEST)
          else (StatusCodes_INTERNAL_SERVER_ERROR,
                stringify_literal ''Internal error. Please contact the system administrator.''
                  ''InternalError'' StatusCodes_INTERNAL_SERVER_ERROR))"

definition isAlb :: "ImageHandlerEvent \<Rightarrow> bool" where
  "isAlb event = (case requestContext event of None \<Rightarrow> False | Some rc \<Rightarrow> elb rc \<noteq> None)"

definition okResponse :: "Env \<Rightarrow> ImageHandlerEvent \<Rightarrow> ImageRequestInfo \<Rightarrow> string \<Rightarrow> ImageHandlerExecutionResult" where
  "okResponse env event info processedRequest =
     \<lparr> statusCode = StatusCodes_OK,
       isBase64Encoded = True,
       headers_res = (getResponseHeaders env False (isAlb event))
         (''Content-Type'' := map_option HString (contentType info),
          ''Expires'' := map_option HString (expires info),
          ''Last-Modified'' := map_option HString (lastModified info),
          ''Cache-Control'' := map_option HString (cacheControl info)),
       body = processedRequest \<rparr>"

definition errorResponse :: "Env \<Rightarrow> ImageHandlerEvent \<Rightarrow> error \<Rightarrow> ImageHandlerExecutionResult" where
  "errorResponse env event e =
     \<lparr> statusCode = fst (getErrorResponse e),
       isBase64Encoded = False,
       headers_res = getResponseHeaders env True (isAlb event),
       body = snd (getErrorResponse e) \<rparr>"

definition fallbackResponse :: "Env \<Rightarrow> ImageHandlerEvent \<Rightarrow> error \<Rightarrow> S3Object \<Rightarrow> ImageHandlerExecutionResult" where
  "fallbackResponse env event e defaultFallbackImage =
     \<lparr> statusCode = (case error_status e of
                       Some s \<Rightarrow> s | None \<Rightarrow> StatusCodes_INTERNAL_SERVER_ERROR),
       isBase64Encoded = True,
       headers_res = (getResponseHeaders env False (isAlb event))
         (''Content-Type'' := map_option HString (ContentType defaultFallbackImage),
          ''Last-Modified'' := map_option HString (LastModified defaultFallbackImage),
          ''Cache-Control'' \<mapsto> HString ''max-age=31536000,public''),
       body = base64 (Body defaultFallbackImage) \<rparr>"

text \<open>
  Modelled from the spec: the fallback-image settings the handler reads: enabled means
  the value \<open>Yes\<close>, and both the bucket and the key must be set and not empty.
\<close>

definition fallbackLocation :: "Env \<Rightarrow> (string \<times> string) option" where
  "fallbackLocation env =
     (if ENABLE_DEFAULT_FALLBACK_IMAGE env = Some ''Yes'' then
        (case DEFAULT_FALLBACK_IMAGE_BUCKET env of
           None \<Rightarrow> None
         | Some fb \<Rightarrow>
             (case DEFAULT_FALLBACK_IMAGE_KEY env of
                None \<Rightarrow> None
              | Some fk \<Rightarrow> if fb = [] \<or> fk = [] then None else Some (fb, fk)))
      else None)"

text \<open>
  Modelled from the spec: \<open>handler\<close> of \<open>image-handler/index.ts\<close>, which is not among
  the sources. A request that is set up and processed is answered with the image. When
  an error occurs and a fallback image is configured, the handler fetches it and answers
  with its bytes and the status of the error (500 for an error without status); when
  none is configured, or fetching it fails, it answers with the error as JSON.
\<close>

definition handler :: "Collaborators \<Rightarrow> Env \<Rightarrow> S3 \<Rightarrow> ImageHandlerEvent \<Rightarrow> ImageHandlerExecutionResult" where
  "handler lib env s3 event =
     (case (case imageRequest_setup lib env s3 event of
              Inl e \<Rightarrow> Inl e
            | Inr info \<Rightarrow>
                (case process lib info of
                   Inl e \<Rightarrow> Inl e
                 | Inr processedRequest \<Rightarrow> Inr (info, processedRequest))) of
        Inr (info, processedRequest) \<Rightarrow> okResponse env event info processedRequest
      | Inl e \<Rightarrow>
          (case fallbackLocation env of
             None \<Rightarrow> errorResponse env event e
           | Some (fb, fk) \<Rightarrow>
               (case s3 (fb, fk) of
                  Inl rejection \<Rightarrow> errorResponse env event e
                | Inr defaultFallbackImage \<Rightarrow>
                    fallbackResponse env event e defaultFallbackImage)))"

subsection \<open>Fixtures of the handler tests (test/index.spec.ts)\<close>

text \<open>
  The two buffers of lines 14-15 and the stored objects the mocked \<open>getObject\<close>
  resolves with.
\<close>

definition mockImage :: Buffer where
  "mockImage = ''SampleImageContent'' @ [CHR 0x0A]"

definition mockFallbackImage :: Buffer where
  "mockFallbackImage = ''SampleFallbackImageContent'' @ [CHR 0x0A]"

definition noSuchKey :: S3Rejection where
  "noSuchKey =
     \<lparr> rejection_status = 404, rejection_code = ''NoSuchKey'',
       rejection_message = Some ''NoSuchKey error happened.'' \<rparr>"

definition unknownError :: S3Rejection where
  "unknownError =
     \<lparr> rejection_status = 500, rejection_code = ''UnknownError'',
       rejection_message = None \<rparr>"

definition mockImageObject :: S3Object where
  "mockImageObject =
     \<lparr> Body = mockImage, ContentType = Some ''image/jpeg'', CacheControl = None,
       Expires = None, LastModified = None \<rparr>"

definition mockFallbackObject :: S3Object where
  "mockFallbackObject =
     \<lparr> Body = mockFallbackImage, ContentType = Some ''image/png'', CacheControl = None,
       Expires = None, LastModified = None \<rparr>"

text \<open>
  The mocked storage of the tests: one that rejects every call with \<open>NoSuchKey\<close>
  (lines 138-142), one that holds the source image (lines 19-23), and one that rejects
  the call for the source image with \<open>UnknownError\<close> and holds the fallback image
  (lines 223-236).
\<close>

definition rejectingStorage :: S3 where
  "rejectingStorage = (\<lambda>location. Inl noSuchKey)"

definition imageStorage :: S3 where
  "imageStorage = rejectingStorage((''source-bucket'', ''test.jpg'') := Inr mockImageObject)"

definition fallbackStorage :: S3 where
  "fallbackStorage =
     (\<lambda>location. Inl unknownError)
       ((''fallback-image-bucket'', ''fallback-image.png'') := Inr mockFallbackObject)"

text \<open>
  A stand-in for the collaborators that suffices for the requests of the tests: the path
  \<open>/key\<close> names an object of the source bucket, there are no edits, and the image
  library returns the bytes it is given.
\<close>

definition cannotReadPath :: error where
  "cannotReadPath =
     ImageHandlerError StatusCodes_BAD_REQUEST ''DecodeRequest::CannotReadPath''
       (Some (''The URL path you provided could not be read. Please ensure that it is '' @
              ''properly formed according to the solution documentation.''))"

definition testCollaborators :: Collaborators where
  "testCollaborators =
     \<lparr> parseImageLocation = (\<lambda>env event.
         case (SOURCE_BUCKETS env, path event) of
           (Some sb, Some (c # k)) \<Rightarrow>
             if c = CHR ''/'' \<and> k \<noteq> [] then Inr (sb, k) else Inl cannotReadPath
         | _ \<Rightarrow> Inl cannotReadPath),
       parseImageEdits = (\<lambda>event. Inr None),
       applyEdits = (\<lambda>es image. Inr image) \<rparr>"

definition failingCollaborators :: "error \<Rightarrow> Collaborators" where
  "failingCollaborators e =
     testCollaborators\<lparr> parseImageEdits := (\<lambda>event. Inr (Some ''edits'')),
                        applyEdits := (\<lambda>es image. Inl e) \<rparr>"

definition testEvent :: ImageHandlerEvent where
  "testEvent =
     \<lparr> path = Some ''/test.jpg'', ev_queryStringParameters = None,
       requestContext = None, ev_headers = None \<rparr>"

definition testEnv :: Env where
  "testEnv =
     \<lparr> CORS_ENABLED = None, CORS_ORIGIN = None, SOURCE_BUCKETS = Some ''source-bucket'',
       ENABLE_DEFAULT_FALLBACK_IMAGE = None, DEFAULT_FALLBACK_IMAGE_BUCKET = None,
       DEFAULT_FALLBACK_IMAGE_KEY = None \<rparr>"

definition fallbackEnv :: Env where
  "fallbackEnv =
     \<lparr> CORS_ENABLED = Some ''Yes'', CORS_ORIGIN = Some ''*'',
       SOURCE_BUCKETS = Some ''source-bucket'',
       ENABLE_DEFAULT_FALLBACK_IMAGE = Some ''Yes'',
       DEFAULT_FALLBACK_IMAGE_BUCKET = Some ''fallback-image-bucket'',
       DEFAULT_FALLBACK_IMAGE_KEY = Some ''fallback-image.png'' \<rparr>"

section \<open>Properties of the configuration\<close>

declare digits.simps [simp del]

lemma includes_sublist: "includes_str hay needle = sublist needle hay"
  by (induction hay) (auto simp: sublist_Cons_right)

lemma viewer_request_handler_querystring:
  "viewer_request_handler (request\<lparr>querystring := q\<rparr>) =
   (viewer_request_handler request)\<lparr>querystring := q\<rparr>"
  by (simp add: viewer_request_handler_def split: option.splits)

lemma viewer_request_handler_keeps_querystring:
  "querystring (viewer_request_handler request) = querystring request"
  by (simp add: viewer_request_handler_def split: option.splits)


lemma viewer_request_handler_idempotent:
  "viewer_request_handler (viewer_request_handler request) = viewer_request_handler request"
  by (auto simp: viewer_request_handler_def resultingHeader_def split: option.splits)

text \<open>
  Claim C8. The viewer-request function replaces a non-empty Accept header by exactly
  \<open>image/webp\<close> when the original value contains \<open>image/webp\<close> as a substring and by
  exactly \<open>image/jpg\<close> otherwise, leaving the rest of the request as it was; a request
  with no headers object or no Accept header is returned unchanged.
\<close>

theorem viewer_request_handler_normalizes:
  "(headers request = Some hs \<and> hs ''accept'' = Some accept \<and>
      hvalue accept = Some v \<and> v \<noteq> [] \<longrightarrow>
      viewer_request_handler request =
        request\<lparr>headers := Some (hs(''accept'' \<mapsto>
          \<lparr> hvalue = Some (if sublist ''image/webp'' v then ''image/webp'' else ''image/jpg''),
            multiValue = None \<rparr>))\<rparr>) \<and>
   (headers request' = None \<or> (\<exists>hs'. headers request' = Some hs' \<and> hs' ''accept'' = None) \<longrightarrow>
      viewer_request_handler request' = request')"
  by (auto simp: viewer_request_handler_def resultingHeader_def includes_sublist)

theorem viewer_request_handler_normalizes_witness:
  "viewer_request_handler
     \<lparr> request_method = ''GET'', uri = ''/bucket/folder/image.jpg'', querystring = [],
       headers = Some [''accept'' \<mapsto>
         \<lparr> hvalue = Some ''image/avif,image/webp,*/*'', multiValue = None \<rparr>] \<rparr> =
     \<lparr> request_method = ''GET'', uri = ''/bucket/folder/image.jpg'', querystring = [],
       headers = Some [''accept'' \<mapsto>
         \<lparr> hvalue = Some ''image/webp'', multiValue = None \<rparr>] \<rparr> \<and>
   viewer_request_handler
     \<lparr> request_method = ''GET'', uri = ''/bucket/folder/image.jpg'', querystring = [],
       headers = Some Map.empty \<rparr> =
     \<lparr> request_method = ''GET'', uri = ''/bucket/folder/image.jpg'', querystring = [],
       headers = Some Map.empty \<rparr>"
  using viewer_request_handler_normalizes
    [of "\<lparr> request_method = ''GET'', uri = ''/bucket/folder/image.jpg'', querystring = [],
           headers = Some [''accept'' \<mapsto>
             \<lparr> hvalue = Some ''image/avif,image/webp,*/*'', multiValue = None \<rparr>] \<rparr>"
        "[''accept'' \<mapsto> \<lparr> hvalue = Some ''image/avif,image/webp,*/*'', multiValue = None \<rparr>]"
        "\<lparr> hvalue = Some ''image/avif,image/webp,*/*'', multiValue = None \<rparr>"
        "''image/avif,image/webp,*/*''"
        "\<lparr> request_method = ''GET'', uri = ''/bucket/folder/image.jpg'', querystring = [],
           headers = Some Map.empty \<rparr>"]
  by (simp add: includes_sublist [symmetric])

text \<open>
  Claim C9. The cache policy and the origin request policy allow-list the same headers
  (\<open>origin\<close>, \<open>accept\<close>) and the same five query parameters. Hence two viewer requests
  that agree on everything but query parameters outside that list have the same cache
  key and are forwarded to the origin as the same request.
\<close>

theorem unlisted_query_parameters_do_not_matter:
  "cp_headerBehavior (cachePolicy props) = orp_headerBehavior (originRequestPolicy props) \<and>
   cp_queryStringBehavior (cachePolicy props) =
     orp_queryStringBehavior (originRequestPolicy props) \<and>
   orp_headerBehavior (originRequestPolicy props) = allowList [''origin'', ''accept''] \<and>
   orp_queryStringBehavior (originRequestPolicy props) =
     allowList [''signature'', ''edits'', ''headers'', ''effort'', ''outputFormat''] \<and>
   (filter (\<lambda>kv. fst kv \<in> {''signature'', ''edits'', ''headers'', ''effort'', ''outputFormat''}) q =
    filter (\<lambda>kv. fst kv \<in> {''signature'', ''edits'', ''headers'', ''effort'', ''outputFormat''})
      (querystring request) \<longrightarrow>
      edgeCacheKey props (request\<lparr>querystring := q\<rparr>) = edgeCacheKey props request \<and>
      edgeOriginRequest props (request\<lparr>querystring := q\<rparr>) = edgeOriginRequest props request)"
  by (simp add: edgeCacheKey_def edgeOriginRequest_def cacheKey_def originRequest_def
      cachePolicy_def originRequestPolicy_def queryStringParameters_def requestHeaders_def
      viewer_request_handler_querystring viewer_request_handler_keeps_querystring)

theorem unlisted_query_parameters_do_not_matter_witness:
  "edgeCacheKey
     \<lparr> uuid = ''u'', cloudFrontPriceClass = ''PriceClass_All'', customDomain = None,
       certificate = None, logsBucket = ''logs'', originShieldEnabled = None,
       originShieldRegion = None, AWS_REGION = ''eu-west-1'' \<rparr>
     \<lparr> request_method = ''GET'', uri = ''/bucket/image.jpg'',
       querystring = [(''utm'', ''a''), (''edits'', ''{}''), (''v'', ''2'')],
       headers = Some Map.empty \<rparr> =
   edgeCacheKey
     \<lparr> uuid = ''u'', cloudFrontPriceClass = ''PriceClass_All'', customDomain = None,
       certificate = None, logsBucket = ''logs'', originShieldEnabled = None,
       originShieldRegion = None, AWS_REGION = ''eu-west-1'' \<rparr>
     \<lparr> request_method = ''GET'', uri = ''/bucket/image.jpg'',
       querystring = [(''edits'', ''{}'')],
       headers = Some Map.empty \<rparr> \<and>
   edgeOriginRequest
     \<lparr> uuid = ''u'', cloudFrontPriceClass = ''PriceClass_All'', customDomain = None,
       certificate = None, logsBucket = ''logs'', originShieldEnabled = None,
       originShieldRegion = None, AWS_REGION = ''eu-west-1'' \<rparr>
     \<lparr> request_method = ''GET'', uri = ''/bucket/image.jpg'',
       querystring = [(''utm'', ''a''), (''edits'', ''{}''), (''v'', ''2'')],
       headers = Some Map.empty \<rparr> =
   edgeOriginRequest
     \<lparr> uuid = ''u'', cloudFrontPriceClass = ''PriceClass_All'', customDomain = None,
       certificate = None, logsBucket = ''logs'', originShieldEnabled = None,
       originShieldRegion = None, AWS_REGION = ''eu-west-1'' \<rparr>
     \<lparr> request_method = ''GET'', uri = ''/bucket/image.jpg'',
       querystring = [(''edits'', ''{}'')],
       headers = Some Map.empty \<rparr>"
  using unlisted_query_parameters_do_not_matter
    [of "\<lparr> uuid = ''u'', cloudFrontPriceClass = ''PriceClass_All'', customDomain = None,
           certificate = None, logsBucket = ''logs'', originShieldEnabled = None,
           originShieldRegion = None, AWS_REGION = ''eu-west-1'' \<rparr>"
        "[(''utm'', ''a''), (''edits'', ''{}''), (''v'', ''2'')]"
        "\<lparr> request_method = ''GET'', uri = ''/bucket/image.jpg'',
           querystring = [(''edits'', ''{}'')], headers = Some Map.empty \<rparr>"]
  by simp

text \<open>
  Claim C10. Whatever the custom domain, price class and origin-shield options are,
  the default behaviour of the distribution allows the methods GET and HEAD only and
  the HTTPS viewer protocol only, each of the statuses 500 to 504 is cached for exactly
  ten minutes (600 seconds), and no property override added afterwards touches the
  default behaviour or the error responses.
\<close>

theorem distribution_invariants:
  "methods (allowedMethods (defaultBehavior (cloudFrontDistributionProps props))) =
     [''GET'', ''HEAD''] \<and>
   viewerProtocolPolicy (defaultBehavior (cloudFrontDistributionProps props)) = HTTPS_ONLY \<and>
   (\<forall>s \<in> {500, 501, 502, 503, 504}.
      errorTtl (errorResponses (cloudFrontDistributionProps props)) s = Some 600) \<and>
   (\<forall>p \<in> set (propertyOverrides props).
      \<not> prefix ''DistributionConfig.DefaultCacheBehavior'' p \<and>
      \<not> prefix ''DistributionConfig.CustomErrorResponses'' p)"
  by (auto simp add: cloudFrontDistributionProps_def propertyOverrides_def
      Duration_minutes_def split: option.splits if_splits)

theorem distribution_invariants_witness:
  "errorTtl (errorResponses (cloudFrontDistributionProps
     \<lparr> uuid = ''u'', cloudFrontPriceClass = ''PriceClass_100'',
       customDomain = Some ''cdn.example.com'', certificate = Some ''cert'',
       logsBucket = ''logs'', originShieldEnabled = Some ''Yes'',
       originShieldRegion = None, AWS_REGION = ''eu-west-1'' \<rparr>)) 502 = Some 600 \<and>
   \<not> prefix ''DistributionConfig.DefaultCacheBehavior''
       (last (propertyOverrides
     \<lparr> uuid = ''u'', cloudFrontPriceClass = ''PriceClass_100'',
       customDomain = Some ''cdn.example.com'', certificate = Some ''cert'',
       logsBucket = ''logs'', originShieldEnabled = Some ''Yes'',
       originShieldRegion = None, AWS_REGION = ''eu-west-1'' \<rparr>))"
  using distribution_invariants
    [of "\<lparr> uuid = ''u'', cloudFrontPriceClass = ''PriceClass_100'',
           customDomain = Some ''cdn.example.com'', certificate = Some ''cert'',
           logsBucket = ''logs'', originShieldEnabled = Some ''Yes'',
           originShieldRegion = None, AWS_REGION = ''eu-west-1'' \<rparr>"]
  by (simp add: propertyOverrides_def)

section \<open>Properties of the request handler\<close>

lemma setup_Inr:
  "parseImageLocation lib env event = Inr (b, k) \<Longrightarrow> parseImageEdits lib event = Inr es \<Longrightarrow>
   s3 (b, k) = Inr obj \<Longrightarrow>
   imageRequest_setup lib env s3 event =
     Inr \<lparr> bucket = b, key = k, edits = es, originalImage = Body obj,
           contentType = ContentType obj, expires = Expires obj,
           lastModified = LastModified obj,
           cacheControl = Some (case CacheControl obj of
              None \<Rightarrow> ''max-age=31536000,public'' | Some c \<Rightarrow> c) \<rparr>"
  by (simp add: imageRequest_setup_def getOriginalImage_def)

lemma handler_ok:
  assumes "parseImageLocation lib env event = Inr (b, k)"
    and "parseImageEdits lib event = Inr es"
    and "s3 (b, k) = Inr obj"
    and "(case es of None \<Rightarrow> Inr (Body obj) | Some e \<Rightarrow> applyEdits lib e (Body obj)) =
           Inr transformed"
  shows "handler lib env s3 event =
           okResponse env event
             \<lparr> bucket = b, key = k, edits = es, originalImage = Body obj,
               contentType = ContentType obj, expires = Expires obj,
               lastModified = LastModified obj,
               cacheControl = Some (case CacheControl obj of
                  None \<Rightarrow> ''max-age=31536000,public'' | Some c \<Rightarrow> c) \<rparr>
             (base64 transformed)"
proof -
  let ?info = "\<lparr> bucket = b, key = k, edits = es, originalImage = Body obj,
           contentType = ContentType obj, expires = Expires obj,
           lastModified = LastModified obj,
           cacheControl = Some (case CacheControl obj of
              None \<Rightarrow> ''max-age=31536000,public'' | Some c \<Rightarrow> c) \<rparr>"
  have s: "imageRequest_setup lib env s3 event = Inr ?info"
    using assms(1-3) by (rule setup_Inr)
  have p: "process lib ?info = Inr (base64 transformed)"
    using assms(4) by (cases es) (simp_all add: process_def)
  show ?thesis
    by (simp add: handler_def s p)
qed



lemma base64_mockImage: "base64 mockImage = ''U2FtcGxlSW1hZ2VDb250ZW50Cg==''"
  by (simp add: mockImage_def b64_def b64chars_def)

lemma base64_mockFallbackImage:
  "base64 mockFallbackImage = ''U2FtcGxlRmFsbGJhY2tJbWFnZUNvbnRlbnQK''"
  by (simp add: mockFallbackImage_def b64_def b64chars_def)

lemma length_base64: "length (base64 bytes) = 4 * ((length bytes + 2) div 3)"
proof (induction bytes rule: base64.induct)
  case (4 a b c rest)
  have "(length (a # b # c # rest) + 2) div 3 = Suc ((length rest + 2) div 3)"
    by simp
  with 4 show ?case
    by simp
qed simp_all

lemmas fixture_defs =
  testCollaborators_def failingCollaborators_def testEnv_def fallbackEnv_def testEvent_def
  mockImageObject_def mockFallbackObject_def noSuchKey_def unknownError_def
  rejectingStorage_def imageStorage_def fallbackStorage_def cannotReadPath_def

lemmas handler_defs =
  handler_def imageRequest_setup_def getOriginalImage_def process_def fallbackLocation_def
  okResponse_def errorResponse_def fallbackResponse_def getErrorResponse_def
  getResponseHeaders_def isAlb_def StatusCodes_OK_def StatusCodes_BAD_REQUEST_def
  StatusCodes_NOT_FOUND_def StatusCodes_INTERNAL_SERVER_ERROR_def
  stringify_error_def stringify_literal_def digits.simps

text \<open>
  The model answers the remaining requests of the handler tests as the tests expect:
  a rejected fetch without fallback image (lines 134-168), a request from a load
  balancer (lines 95-132), an error without status (lines 170-210), the overlay error
  of the image library (lines 432-482) and the fallback image (lines 212-265).
\<close>

lemma test_error_json:
  "statusCode (handler testCollaborators testEnv rejectingStorage testEvent) = 404 \<and>
   \<not> isBase64Encoded (handler testCollaborators testEnv rejectingStorage testEvent) \<and>
   headers_res (handler testCollaborators testEnv rejectingStorage testEvent)
     ''Content-Type'' = Some (HString ''application/json'') \<and>
   headers_res (handler testCollaborators testEnv rejectingStorage testEvent)
     ''Access-Control-Allow-Credentials'' = Some (HBool True) \<and>
   body (handler testCollaborators testEnv rejectingStorage testEvent) =
     ''{'' @ quote ''status'' @ '':404,'' @ quote ''code'' @ '':'' @ quote ''NoSuchKey'' @
     '','' @ quote ''message'' @ '':'' @
     quote ''The image test.jpg does not exist or the request may not be base64 encoded properly.''
     @ ''}''"
  by (simp add: handler_defs fixture_defs)

lemma test_load_balancer:
  "statusCode (handler testCollaborators testEnv imageStorage
      (testEvent\<lparr>requestContext := Some \<lparr> elb = Some () \<rparr>\<rparr>)) = 200 \<and>
   headers_res (handler testCollaborators testEnv imageStorage
      (testEvent\<lparr>requestContext := Some \<lparr> elb = Some () \<rparr>\<rparr>))
     ''Access-Control-Allow-Credentials'' = None"
  by (simp add: handler_defs fixture_defs)

lemma test_error_without_status:
  "statusCode (handler (failingCollaborators (Error ''wrongFilter is not a function''))
      testEnv imageStorage testEvent) = 500 \<and>
   body (handler (failingCollaborators (Error ''wrongFilter is not a function''))
      testEnv imageStorage testEvent) =
     ''{'' @ quote ''message'' @ '':'' @
     quote ''Internal error. Please contact the system administrator.'' @ '','' @
     quote ''code'' @ '':'' @ quote ''InternalError'' @ '','' @
     quote ''status'' @ '':500}''"
  by (simp add: handler_defs fixture_defs)

lemma test_overlay_dimensions:
  "statusCode (handler
      (failingCollaborators (Error ''Image to overlay must have same dimensions or smaller''))
      testEnv imageStorage testEvent) = 400 \<and>
   body (handler
      (failingCollaborators (Error ''Image to overlay must have same dimensions or smaller''))
      testEnv imageStorage testEvent) =
     ''{'' @ quote ''message'' @ '':'' @
     quote ''Image to overlay must have same dimensions or smaller'' @ '','' @
     quote ''code'' @ '':'' @ quote ''BadRequest'' @ '','' @
     quote ''status'' @ '':400}''"
  by (simp add: handler_defs fixture_defs)

lemma test_fallback_image:
  "statusCode (handler testCollaborators fallbackEnv fallbackStorage testEvent) = 404 \<and>
   body (handler testCollaborators fallbackEnv fallbackStorage testEvent) =
     ''U2FtcGxlRmFsbGJhY2tJbWFnZUNvbnRlbnQK'' \<and>
   headers_res (handler testCollaborators fallbackEnv fallbackStorage testEvent)
     ''Access-Control-Allow-Origin'' = Some (HString ''*'')"
  by (simp add: handler_defs fixture_defs base64_mockFallbackImage)

text \<open>
  Claim C1. A request that is processed successfully (its location and edits are read,
  the source image is in object storage, and the image library transforms its bytes) is
  answered with status 200, \<open>isBase64Encoded\<close> true, the base64 text of the transformed
  bytes as body, and the content type of the image as \<open>Content-Type\<close> header.
\<close>

theorem handler_success:
  assumes "parseImageLocation lib env event = Inr (b, k)"
    and "parseImageEdits lib event = Inr es"
    and "s3 (b, k) = Inr obj"
    and "(case es of None \<Rightarrow> Inr (Body obj) | Some e \<Rightarrow> applyEdits lib e (Body obj)) =
           Inr transformed"
  shows "statusCode (handler lib env s3 event) = 200 \<and>
         isBase64Encoded (handler lib env s3 event) \<and>
         body (handler lib env s3 event) = base64 transformed \<and>
         headers_res (handler lib env s3 event) ''Content-Type'' =
           map_option HString (ContentType obj)"
proof -
  note h = handler_ok [where lib = lib and env = env and event = event and b = b and k = k
      and es = es and ?s3.0 = s3 and obj = obj and transformed = transformed, OF assms]
  show ?thesis
    by (simp add: h okResponse_def StatusCodes_OK_def)
qed

theorem handler_success_witness:
  "statusCode (handler testCollaborators testEnv imageStorage testEvent) = 200 \<and>
   isBase64Encoded (handler testCollaborators testEnv imageStorage testEvent) \<and>
   body (handler testCollaborators testEnv imageStorage testEvent) =
     ''U2FtcGxlSW1hZ2VDb250ZW50Cg=='' \<and>
   headers_res (handler testCollaborators testEnv imageStorage testEvent) ''Content-Type'' =
     Some (HString ''image/jpeg'')"
  using handler_success
    [of testCollaborators testEnv testEvent "''source-bucket''" "''test.jpg''" None
        imageStorage mockImageObject mockImage]
  by (simp add: testCollaborators_def testEnv_def testEvent_def mockImageObject_def
      imageStorage_def base64_mockImage)








end
